theory Spec2Isabelle
  imports Main
begin

section \<open>Strings\<close>

text \<open>
  A Python \<^verbatim>\<open>str\<close> is a sequence of Unicode code points and \<^verbatim>\<open>len\<close> counts code
  points. The caption of \<^verbatim>\<open>send_to_telegram\<close> holds characters beyond one byte, so a
  string is modelled as a list of code points; \<open>ascii\<close> reads an ASCII literal.
\<close>

type_synonym codepoint = nat
type_synonym pystr = "codepoint list"

definition ascii :: "string \<Rightarrow> pystr" where
  "ascii s = map of_char s"

text \<open>\<^verbatim>\<open>s.startswith(p)\<close>.\<close>

definition startswith :: "pystr \<Rightarrow> pystr \<Rightarrow> bool" where
  "startswith s p = (take (length p) s = p)"

text \<open>
  \<^verbatim>\<open>s.replace(old, new)\<close>: the occurrences of \<open>old\<close> are replaced from the left and do
  not overlap; an empty \<open>old\<close> puts \<open>new\<close> before every character and at the end.
\<close>

function replace :: "pystr \<Rightarrow> pystr \<Rightarrow> pystr \<Rightarrow> pystr" where
  "replace old new s =
     (if old = [] then new @ concat (map (\<lambda>c. c # new) s)
      else if s = [] then []
      else if take (length old) s = old then new @ replace old new (drop (length old) s)
      else hd s # replace old new (tl s))"
  by pat_completeness auto
termination
  by (relation "measure (\<lambda>(old, new, s). length s)") (auto simp: neq_Nil_conv)

declare replace.simps [simp del]

text \<open>
  \<^verbatim>\<open>s[:n]\<close>: a negative bound counts from the end, and a bound outside the string is
  clipped.
\<close>

definition slice_to :: "pystr \<Rightarrow> int \<Rightarrow> pystr" where
  "slice_to s n = (if 0 \<le> n then take (nat n) s else take (nat (int (length s) + n)) s)"

text \<open>
  The code points \<^verbatim>\<open>str.strip()\<close> removes from both ends (those for which
  \<^verbatim>\<open>str.isspace\<close> holds).
\<close>

definition isspace :: "codepoint \<Rightarrow> bool" where
  "isspace c \<longleftrightarrow>
     (9 \<le> c \<and> c \<le> 13) \<or> (28 \<le> c \<and> c \<le> 32) \<or> c = 133 \<or> c = 160 \<or> c = 5760 \<or>
     (8192 \<le> c \<and> c \<le> 8202) \<or> c = 8232 \<or> c = 8233 \<or> c = 8239 \<or> c = 8287 \<or> c = 12288"

definition strip :: "pystr \<Rightarrow> pystr" where
  "strip s = rev (dropWhile isspace (rev (dropWhile isspace s)))"

text \<open>
  An HTML element is seen through the strings below it, in document order.
  \<^verbatim>\<open>tag.text\<close> joins them as they are; \<^verbatim>\<open>tag.get_text(strip=True)\<close> strips each one and
  leaves out those that end up empty.
\<close>

type_synonym element = "pystr list"

definition text_of :: "element \<Rightarrow> pystr" where
  "text_of e = concat e"

definition get_text_strip :: "element \<Rightarrow> pystr" where
  "get_text_strip e = concat (filter (\<lambda>s. s \<noteq> []) (map strip e))"

section \<open>escape_html\<close>

text \<open>
  The argument of \<^verbatim>\<open>escape_html\<close> is any Python value: \<open>PyOther\<close> stands for every
  value that is neither \<^verbatim>\<open>None\<close> nor a \<^verbatim>\<open>str\<close>.
\<close>

datatype pyval = PyNone | PyStr pystr | PyOther

definition escape_html :: "pyval \<Rightarrow> pystr" where
  "escape_html text =
     (case text of
        PyStr s \<Rightarrow>
          if s = [] then []
          else replace (ascii ''>'') (ascii ''&gt;'')
                 (replace (ascii ''<'') (ascii ''&lt;'')
                    (replace (ascii ''&'') (ascii ''&amp;'') s))
      | _ \<Rightarrow> [])"

text \<open>
  The escaping as the specification words it: every \<^verbatim>\<open>&\<close>, \<^verbatim>\<open><\<close> and \<^verbatim>\<open>>\<close> becomes its
  entity, every other character stays.
\<close>

definition escape_char :: "codepoint \<Rightarrow> pystr" where
  "escape_char c =
     (if c = of_char CHR ''&'' then ascii ''&amp;''
      else if c = of_char CHR ''<'' then ascii ''&lt;''
      else if c = of_char CHR ''>'' then ascii ''&gt;''
      else [c])"

definition escape_spec :: "pystr \<Rightarrow> pystr" where
  "escape_spec s = concat (map escape_char s)"

section \<open>The ledger of posted titles\<close>

datatype exn =
    KeyError | OSError | TypeError | ParseError | FutureTimeout | RetryError

text \<open>
  What \<^verbatim>\<open>load_posted_titles\<close> can find at \<^verbatim>\<open>posted_titles.json\<close>:
  no file; a file that \<^verbatim>\<open>open\<close> or \<^verbatim>\<open>read\<close> refuses (\<^verbatim>\<open>OSError\<close>); a file
  \<^verbatim>\<open>json.load\<close> rejects (\<^verbatim>\<open>JSONDecodeError\<close>); a JSON number, boolean or null, on
  which \<^verbatim>\<open>set\<close> raises \<^verbatim>\<open>TypeError\<close>; a JSON list of strings. The program reads the
  list through \<^verbatim>\<open>set\<close> only, so the last case keeps the set of its elements.
\<close>

datatype ledger_file =
    Absent | Unreadable | Undecodable | Scalar | Stored "pystr set"

fun load_posted_titles :: "ledger_file \<Rightarrow> exn + pystr set" where
  "load_posted_titles Absent = Inr {}"
| "load_posted_titles Unreadable = Inl OSError"
| "load_posted_titles Undecodable = Inr {}"
| "load_posted_titles Scalar = Inl TypeError"
| "load_posted_titles (Stored ts) = Inr ts"

text \<open>
  \<^verbatim>\<open>save_posted_title\<close> loads, adds and writes the whole list back inside
  \<^verbatim>\<open>try ... except Exception\<close>: when the load raises, nothing is written.
\<close>

definition save_posted_title :: "pystr \<Rightarrow> ledger_file \<Rightarrow> ledger_file" where
  "save_posted_title t f =
     (case load_posted_titles f of
        Inl e \<Rightarrow> f
      | Inr titles \<Rightarrow> Stored (insert t titles))"

section \<open>The image probe\<close>

text \<open>
  The answer to the ranged GET of \<^verbatim>\<open>validate_image_url\<close>: a \<^verbatim>\<open>RequestException\<close>
  (from the request or from \<^verbatim>\<open>raise_for_status\<close>), or a response with its
  \<^verbatim>\<open>content-type\<close> header, if it has one.
\<close>

datatype probe_resp = ProbeFailed | ProbeHeaders "pystr option"

definition truthy :: "pystr option \<Rightarrow> bool" where
  "truthy v = (case v of None \<Rightarrow> False | Some s \<Rightarrow> s \<noteq> [])"

definition validate_image_url :: "pystr option \<Rightarrow> probe_resp \<Rightarrow> bool" where
  "validate_image_url image_url resp =
     (if \<not> truthy image_url then False
      else case resp of
        ProbeFailed \<Rightarrow> False
      | ProbeHeaders h \<Rightarrow>
          startswith (case h of None \<Rightarrow> [] | Some ct \<Rightarrow> ct) (ascii ''image/''))"

section \<open>The retry decorator\<close>

text \<open>
  \<^verbatim>\<open>@retry(stop=stop_after_attempt(3), wait=wait_exponential(multiplier=1, min=4, max=10))\<close>
  of the tenacity library: the function is called again when it raises, after a sleep
  of \<open>wait_exponential\<close> seconds, and after the attempt whose number reaches the bound
  \<^verbatim>\<open>RetryError\<close> is raised. A call that returns ends the loop. The result comes with the
  number of attempts made and the sleeps taken.
\<close>

definition wait_exponential :: "nat \<Rightarrow> nat \<Rightarrow> nat \<Rightarrow> nat \<Rightarrow> nat" where
  "wait_exponential multiplier lo hi attempt =
     max (max 0 lo) (min (multiplier * 2 ^ (attempt - 1)) hi)"

function retrying :: "nat \<Rightarrow> nat \<Rightarrow> (nat \<Rightarrow> exn + 'a) \<Rightarrow> (exn + 'a) \<times> nat \<times> nat list" where
  "retrying bound attempt body =
     (case body attempt of
        Inr v \<Rightarrow> (Inr v, attempt, [])
      | Inl e \<Rightarrow>
          if bound \<le> attempt then (Inl RetryError, attempt, [])
          else (case retrying bound (Suc attempt) body of
                  (r, n, sleeps) \<Rightarrow> (r, n, wait_exponential 1 4 10 attempt # sleeps)))"
  by pat_completeness auto
termination
  by (relation "measure (\<lambda>(bound, attempt, body). bound - attempt)") auto

declare retrying.simps [simp del]

definition retry :: "(nat \<Rightarrow> exn + 'a) \<Rightarrow> (exn + 'a) \<times> nat \<times> nat list" where
  "retry body = retrying 3 1 body"

section \<open>The feed\<close>

text \<open>
  A news card of the home page, as far as the program looks into it: the \<^verbatim>\<open>h3\<close> tag
  (its strings, and its first \<^verbatim>\<open>a\<close> tag with the \<^verbatim>\<open>href\<close> attribute, each if present),
  the \<^verbatim>\<open>time\<close> tag, and the thumbnail \<^verbatim>\<open>div\<close> with its \<^verbatim>\<open>data-src\<close> attribute.
  The \<^verbatim>\<open>datetime\<close> attribute of the \<^verbatim>\<open>time\<close> tag is missing (the subscript raises
  \<^verbatim>\<open>KeyError\<close>), is rejected by \<^verbatim>\<open>fromisoformat\<close> (\<^verbatim>\<open>ValueError\<close>), or gives a day
  in the local time zone.
\<close>

datatype datetime_attr = NoDatetime | BadDatetime | LocalDay nat

record h3_tag =
  strings :: element
  link :: "pystr option option"

record card =
  h3 :: "h3_tag option"
  time_tag :: "datetime_attr option"
  thumbnail :: "pystr option option"

text \<open>
  A news item is the dictionary \<^verbatim>\<open>fetch_anime_news\<close> builds; the keys \<^verbatim>\<open>image\<close> and
  \<^verbatim>\<open>summary\<close> are absent until \<^verbatim>\<open>fetch_selected_articles\<close> sets both.
\<close>

record news =
  title :: pystr
  article_url :: "pystr option"
  article :: card
  enriched :: "(pystr option \<times> pystr) option"

definition BASE_URL :: pystr where
  "BASE_URL = ascii ''https://www.animenewsnetwork.com''"

definition DEBUG_MODE :: bool where
  "DEBUG_MODE = False"

text \<open>\<^verbatim>\<open>f"{BASE_URL}{link['href']}" if link else None\<close>.\<close>

definition article_url_of :: "pystr option option \<Rightarrow> exn + pystr option" where
  "article_url_of l =
     (case l of
        None \<Rightarrow> Inr None
      | Some None \<Rightarrow> Inl KeyError
      | Some (Some href) \<Rightarrow> Inr (Some (BASE_URL @ href)))"

text \<open>
  The loop over the cards, with \<^verbatim>\<open>news_list\<close> as it grows. An exception out of a card
  ends the loop and the call.
\<close>

fun scan_articles :: "nat \<Rightarrow> card list \<Rightarrow> news list \<Rightarrow> exn + news list" where
  "scan_articles today_local [] news_list = Inr news_list"
| "scan_articles today_local (a # all_articles) news_list =
     (case (h3 a, time_tag a) of
        (Some title_tag, Some date_tag) \<Rightarrow>
          (case date_tag of
             NoDatetime \<Rightarrow> Inl KeyError
           | BadDatetime \<Rightarrow> scan_articles today_local all_articles news_list
           | LocalDay news_date \<Rightarrow>
               if DEBUG_MODE \<or> news_date = today_local then
                 (case article_url_of (link title_tag) of
                    Inl e \<Rightarrow> Inl e
                  | Inr url \<Rightarrow>
                      scan_articles today_local all_articles
                        (news_list @
                           [\<lparr>title = get_text_strip (strings title_tag), article_url = url,
                             article = a, enriched = None\<rparr>]))
               else scan_articles today_local all_articles news_list)
      | _ \<Rightarrow> scan_articles today_local all_articles news_list)"

text \<open>
  The answer to the GET of the home page: a \<^verbatim>\<open>RequestException\<close> (from the request or
  from \<^verbatim>\<open>raise_for_status\<close>), or the cards of the page.
\<close>

datatype feed_resp = FeedRequestError | FeedPage "card list"

definition fetch_anime_news_body :: "nat \<Rightarrow> feed_resp \<Rightarrow> exn + news list" where
  "fetch_anime_news_body today_local resp =
     (case resp of
        FeedRequestError \<Rightarrow> Inr []
      | FeedPage all_articles \<Rightarrow> scan_articles today_local all_articles [])"

text \<open>The decorated function: \<open>feed n\<close> answers the GET of attempt \<open>n\<close>.\<close>

definition fetch_anime_news ::
  "nat \<Rightarrow> (nat \<Rightarrow> feed_resp) \<Rightarrow> (exn + news list) \<times> nat \<times> nat list" where
  "fetch_anime_news today_local feed = retry (\<lambda>n. fetch_anime_news_body today_local (feed n))"

section \<open>The article details\<close>

text \<open>
  The article page, as far as the program looks into it: the \<^verbatim>\<open>div\<close> of class
  \<^verbatim>\<open>meat\<close> and the one of class \<^verbatim>\<open>content\<close>, each with its first \<^verbatim>\<open>p\<close>, if present.
  A tag is always true in a condition, so \<^verbatim>\<open>or\<close> takes the second only when the first
  is missing.
\<close>

record page =
  meat :: "element option option"
  content :: "element option option"

text \<open>
  The answer to the GET of the article page: a \<^verbatim>\<open>RequestException\<close>, an exception of
  another class raised inside the \<^verbatim>\<open>try\<close> (it is not caught there), or the page.
\<close>

datatype detail_resp = DetailRequestError | DetailOtherError | DetailPage page

definition summarize :: "element \<Rightarrow> pystr" where
  "summarize first_paragraph =
     (if 300 < length (text_of first_paragraph)
      then take 300 (get_text_strip first_paragraph) @ ascii ''...''
      else text_of first_paragraph)"

definition thumbnail_url :: "card \<Rightarrow> pystr option" where
  "thumbnail_url a =
     (case thumbnail a of
        Some (Some img_url) \<Rightarrow>
          if img_url = [] then None
          else Some (if \<not> startswith img_url (ascii ''http'') then BASE_URL @ img_url
                     else img_url)
      | _ \<Rightarrow> None)"

text \<open>
  \<^verbatim>\<open>content_div.find("p")\<close> of the \<^verbatim>\<open>div\<close> found by
  \<^verbatim>\<open>find("div", class_="meat") or find("div", class_="content")\<close>, if both are there.
\<close>

definition first_paragraph_of :: "page \<Rightarrow> element option" where
  "first_paragraph_of p =
     (case (case meat p of None \<Rightarrow> content p | Some d \<Rightarrow> Some d) of
        Some (Some first_paragraph) \<Rightarrow> Some first_paragraph
      | _ \<Rightarrow> None)"

definition fetch_article_details_body ::
  "pystr option \<Rightarrow> card \<Rightarrow> detail_resp \<Rightarrow> exn + (pystr option \<times> pystr)" where
  "fetch_article_details_body url a resp =
     (let image_url = thumbnail_url a;
          summary = ascii ''No summary available.''
      in if truthy url then
           (case resp of
              DetailRequestError \<Rightarrow> Inr (image_url, summary)
            | DetailOtherError \<Rightarrow> Inl ParseError
            | DetailPage p \<Rightarrow>
                (case first_paragraph_of p of
                   Some first_paragraph \<Rightarrow> Inr (image_url, summarize first_paragraph)
                 | None \<Rightarrow> Inr (image_url, summary)))
         else Inr (image_url, summary))"

definition fetch_article_details ::
  "pystr option \<Rightarrow> card \<Rightarrow> (nat \<Rightarrow> detail_resp) \<Rightarrow>
     (exn + (pystr option \<times> pystr)) \<times> nat \<times> nat list" where
  "fetch_article_details url a detail = retry (\<lambda>n. fetch_article_details_body url a (detail n))"

section \<open>The world outside\<close>

text \<open>
  A request to the messaging transport returns a 2xx status, or raises a
  \<^verbatim>\<open>RequestException\<close> (from the request or from \<^verbatim>\<open>raise_for_status\<close>).
\<close>

datatype http_result = Success | RequestError

text \<open>
  Everything a run reads from outside, apart from the ledger file: the home page at
  each attempt; the local day; for the \<open>k\<close>-th submitted enrichment, the article page
  at each attempt, and whether \<^verbatim>\<open>future.result(timeout=10)\<close> times out; for the \<open>i\<close>-th
  item of the publishing loop, the answers of the image probe and of the two transport
  requests.
\<close>

record world =
  feed :: "nat \<Rightarrow> feed_resp"
  today :: nat
  detail :: "nat \<Rightarrow> nat \<Rightarrow> detail_resp"
  times_out :: "nat \<Rightarrow> bool"
  probe :: "nat \<Rightarrow> probe_resp"
  photo :: "nat \<Rightarrow> http_result"
  message :: "nat \<Rightarrow> http_result"

text \<open>
  What a run does, in order: an enrichment submitted for an item, a call of
  \<^verbatim>\<open>send_to_telegram\<close>, the probe of an image, the two transport requests (each with the
  title it is sent for, its payload and its outcome), a call of
  \<^verbatim>\<open>save_posted_title\<close>, and a sleep of the main thread.
\<close>

datatype event =
    Enrich pystr
  | Publish pystr
  | Probe pystr
  | SendPhoto pystr pystr pystr http_result
  | SendMessage pystr pystr http_result
  | SaveTitle pystr
  | Sleep nat

section \<open>fetch_selected_articles\<close>

text \<open>
  The futures are read in the order they were submitted; each result, or the fallback
  of the \<^verbatim>\<open>except Exception\<close> branch, is written into the item's own dictionary, which
  \<^verbatim>\<open>news_list\<close> shares.
\<close>

definition enrich_one :: "world \<Rightarrow> nat \<Rightarrow> news \<Rightarrow> news" where
  "enrich_one w k n =
     (if times_out w k then n\<lparr>enriched := Some (None, ascii ''Failed to fetch summary.'')\<rparr>
      else case fst (fetch_article_details (article_url n) (article n) (detail w k)) of
        Inr result \<Rightarrow> n\<lparr>enriched := Some result\<rparr>
      | Inl e \<Rightarrow> n\<lparr>enriched := Some (None, ascii ''Failed to fetch summary.'')\<rparr>)"

fun enrich_all :: "world \<Rightarrow> pystr set \<Rightarrow> nat \<Rightarrow> news list \<Rightarrow> news list" where
  "enrich_all w posted_titles k [] = []"
| "enrich_all w posted_titles k (n # ns) =
     (if title n \<notin> posted_titles
      then enrich_one w k n # enrich_all w posted_titles (Suc k) ns
      else n # enrich_all w posted_titles k ns)"

definition fetch_selected_articles ::
  "world \<Rightarrow> news list \<Rightarrow> ledger_file \<Rightarrow> exn + (news list \<times> event list)" where
  "fetch_selected_articles w news_list ledger =
     (case load_posted_titles ledger of
        Inl e \<Rightarrow> Inl e
      | Inr posted_titles \<Rightarrow>
          Inr (enrich_all w posted_titles 0 news_list,
               map (\<lambda>n. Enrich (title n))
                 (filter (\<lambda>n. title n \<notin> posted_titles) news_list)))"

section \<open>send_to_telegram\<close>

definition format_caption :: "pystr \<Rightarrow> pystr \<Rightarrow> pystr" where
  "format_caption safe_title safe_summary =
     ascii ''<b>'' @ safe_title @ ascii ''</b> '' @ [9889, 10] @
     replicate 17 65103 @ [10] @
     safe_summary @ [10] @
     replicate 17 65099 @ [10] @
     [127809] @ ascii ''| @TheAnimeTimes_acn''"

definition signature :: pystr where
  "signature = [127809] @ ascii ''| @TheAnimeTimes_acn''"

text \<open>The caption as first formatted, and the one that is sent.\<close>

definition safe_summary_of :: "pystr \<Rightarrow> pystr" where
  "safe_summary_of summary =
     (if summary \<noteq> [] then escape_html (PyStr summary) else ascii ''No summary available'')"

definition first_caption :: "pystr \<Rightarrow> pystr \<Rightarrow> pystr" where
  "first_caption t summary = format_caption (escape_html (PyStr t)) (safe_summary_of summary)"

definition caption_of :: "pystr \<Rightarrow> pystr \<Rightarrow> pystr" where
  "caption_of t summary =
     (let safe_title = escape_html (PyStr t);
          safe_summary = safe_summary_of summary;
          caption = format_caption safe_title safe_summary
      in if 1024 < length caption
         then format_caption safe_title
                (slice_to safe_summary (1024 - int (length safe_title) - 50) @ ascii ''...'')
         else caption)"

text \<open>
  The text message, the fallback of both a failed photo and a missing or invalid
  image.
\<close>

definition send_message ::
  "http_result \<Rightarrow> pystr \<Rightarrow> pystr \<Rightarrow> ledger_file \<Rightarrow> event list \<times> ledger_file" where
  "send_message msg t caption ledger =
     (case msg of
        Success \<Rightarrow> ([SendMessage t caption Success, SaveTitle t], save_posted_title t ledger)
      | RequestError \<Rightarrow> ([SendMessage t caption RequestError], ledger))"

definition send_to_telegram ::
  "probe_resp \<Rightarrow> http_result \<Rightarrow> http_result \<Rightarrow> pystr \<Rightarrow> pystr option \<Rightarrow> pystr \<Rightarrow>
     ledger_file \<Rightarrow> event list \<times> ledger_file" where
  "send_to_telegram pr ph msg t image_url summary ledger =
     (let caption = caption_of t summary;
          fallback = send_message msg t caption ledger
      in case (if truthy image_url then image_url else None) of
           None \<Rightarrow> (Publish t # fst fallback, snd fallback)
         | Some url \<Rightarrow>
             if validate_image_url image_url pr then
               (case ph of
                  Success \<Rightarrow>
                    ([Publish t, Probe url, SendPhoto t url caption Success, SaveTitle t],
                     save_posted_title t ledger)
                | RequestError \<Rightarrow>
                    ([Publish t, Probe url, SendPhoto t url caption RequestError] @ fst fallback,
                     snd fallback))
             else ([Publish t, Probe url] @ fst fallback, snd fallback))"

section \<open>run_once\<close>

text \<open>
  The publishing loop: the ledger is loaded again for every item, and an item whose
  title is not in it is sent, with a sleep of two seconds after it. Reading
  \<^verbatim>\<open>news["image"]\<close> of an item that was not enriched raises \<^verbatim>\<open>KeyError\<close>. The result is
  the exception that ended the loop, if any, with the events up to it and the ledger
  file as it is left.
\<close>

fun publish_all ::
  "world \<Rightarrow> nat \<Rightarrow> news list \<Rightarrow> ledger_file \<Rightarrow> exn option \<times> event list \<times> ledger_file" where
  "publish_all w i [] ledger = (None, [], ledger)"
| "publish_all w i (n # ns) ledger =
     (case load_posted_titles ledger of
        Inl e \<Rightarrow> (Some e, [], ledger)
      | Inr posted_titles \<Rightarrow>
          if title n \<notin> posted_titles then
            (case enriched n of
               None \<Rightarrow> (Some KeyError, [], ledger)
             | Some (image_url, summary) \<Rightarrow>
                 (case send_to_telegram (probe w i) (photo w i) (message w i)
                         (title n) image_url summary ledger of
                    (tr, ledger') \<Rightarrow>
                      (case publish_all w (Suc i) ns ledger' of
                         (r, tr', ledger'') \<Rightarrow> (r, tr @ Sleep 2 # tr', ledger''))))
          else publish_all w (Suc i) ns ledger)"

definition run_once :: "world \<Rightarrow> ledger_file \<Rightarrow> exn option \<times> event list \<times> ledger_file" where
  "run_once w ledger =
     (case fetch_anime_news (today w) (feed w) of
        (Inl e, attempts, sleeps) \<Rightarrow> (Some e, map Sleep sleeps, ledger)
      | (Inr news_list, attempts, sleeps) \<Rightarrow>
          if news_list = [] then (None, map Sleep sleeps, ledger)
          else
            (case fetch_selected_articles w news_list ledger of
               Inl e \<Rightarrow> (Some e, map Sleep sleeps, ledger)
             | Inr (news_list', tr) \<Rightarrow>
                 (case publish_all w 0 news_list' ledger of
                    (r, tr', ledger') \<Rightarrow> (r, map Sleep sleeps @ tr @ tr', ledger'))))"

text \<open>Readings of a trace.\<close>

fun delivered :: "pystr \<Rightarrow> event \<Rightarrow> bool" where
  "delivered t (SendPhoto t' url caption r) = (t' = t \<and> r = Success)"
| "delivered t (SendMessage t' caption r) = (t' = t \<and> r = Success)"
| "delivered t e = False"

fun sent_for :: "event \<Rightarrow> pystr option" where
  "sent_for (SendPhoto t url caption r) = Some t"
| "sent_for (SendMessage t caption r) = Some t"
| "sent_for e = None"

fun published_for :: "event \<Rightarrow> pystr option" where
  "published_for (Publish t) = Some t"
| "published_for e = None"

fun enriched_for :: "event \<Rightarrow> pystr option" where
  "enriched_for (Enrich t) = Some t"
| "enriched_for e = None"

text \<open>
  The titles of the transport requests, of the calls of \<^verbatim>\<open>send_to_telegram\<close> and of
  the enrichments of a trace, in order.
\<close>

definition deliveries :: "event list \<Rightarrow> pystr list" where
  "deliveries tr = List.map_filter sent_for tr"

definition publications :: "event list \<Rightarrow> pystr list" where
  "publications tr = List.map_filter published_for tr"

definition enrichments :: "event list \<Rightarrow> pystr list" where
  "enrichments tr = List.map_filter enriched_for tr"

text \<open>
  The enrichment of an item raises out of its task when \<^verbatim>\<open>future.result(timeout=10)\<close>
  times out, or when the decorated \<^verbatim>\<open>fetch_article_details\<close> raises.
\<close>

definition task_raises :: "world \<Rightarrow> nat \<Rightarrow> news \<Rightarrow> bool" where
  "task_raises w k n \<longleftrightarrow>
     times_out w k \<or> isl (fst (fetch_article_details (article_url n) (article n) (detail w k)))"

section \<open>Example inputs\<close>

text \<open>
  A home page of three cards dated today, each with a title, a link and a thumbnail;
  article pages with one short paragraph; thumbnails served as JPEG; a transport that
  accepts every request.
\<close>

definition example_card :: "string \<Rightarrow> card" where
  "example_card t =
     \<lparr>h3 = Some \<lparr>strings = [ascii t], link = Some (Some (ascii ''/news/'' @ ascii t))\<rparr>,
      time_tag = Some (LocalDay 7),
      thumbnail = Some (Some (ascii ''/thumb/'' @ ascii t))\<rparr>"

definition example_news :: "string \<Rightarrow> news" where
  "example_news t =
     \<lparr>title = ascii t, article_url = Some (BASE_URL @ ascii ''/news/'' @ ascii t),
      article = example_card t, enriched = None\<rparr>"

definition example_world :: world where
  "example_world =
     \<lparr>feed = (\<lambda>n. FeedPage [example_card ''A'', example_card ''B'', example_card ''C'']),
      today = 7,
      detail = (\<lambda>k n. DetailPage \<lparr>meat = Some (Some [ascii ''Summary'']), content = None\<rparr>),
      times_out = (\<lambda>k. False),
      probe = (\<lambda>i. ProbeHeaders (Some (ascii ''image/jpeg''))),
      photo = (\<lambda>i. Success),
      message = (\<lambda>i. Success)\<rparr>"

section \<open>Strings: lemmas\<close>

lemma replace_single:
  "replace [c] new s = concat (map (\<lambda>x. if x = c then new else [x]) s)"
proof (induction s)
  case Nil
  show ?case by (simp add: replace.simps)
next
  case (Cons a s)
  then show ?case by (subst replace.simps) simp
qed

lemma ascii_single: "ascii [c] = [of_char c]"
  by (simp add: ascii_def)

lemma escape_html_str: "escape_html (PyStr s) = escape_spec s"
proof -
  have "replace (ascii ''>'') (ascii ''&gt;'')
          (replace (ascii ''<'') (ascii ''&lt;'')
             (replace (ascii ''&'') (ascii ''&amp;'') s)) = escape_spec s"
    unfolding ascii_single replace_single escape_spec_def
    by (induction s) (simp_all add: escape_char_def ascii_def)
  then show ?thesis
    by (cases "s = []") (simp_all add: escape_html_def escape_spec_def)
qed

lemma escape_spec_plain:
  "\<forall>c\<in>set s. c \<noteq> 38 \<and> c \<noteq> 60 \<and> c \<noteq> 62 \<Longrightarrow> escape_spec s = s"
  by (induction s) (simp_all add: escape_spec_def escape_char_def)

lemma length_format_caption:
  "length (format_caption a b) = 68 + length a + length b"
  by (simp add: format_caption_def ascii_def)




lemma strip_letter: "\<not> isspace c \<Longrightarrow> strip [c] = [c]"
  by (simp add: strip_def)

section \<open>The retry decorator: lemmas\<close>

text \<open>Three attempts that raise end in \<^verbatim>\<open>RetryError\<close>, after two sleeps of four seconds.\<close>

lemma retry_exhausted:
  "body 1 = Inl a \<Longrightarrow> body 2 = Inl b \<Longrightarrow> body 3 = Inl c \<Longrightarrow>
   retry body = (Inl RetryError, 3, [4, 4])"
  by (simp add: retry_def retrying.simps [of _ 1] retrying.simps [of _ 2]
        retrying.simps [of _ 3] retrying.simps [of _ "Suc 0"]
        retrying.simps [of _ "Suc (Suc 0)"] retrying.simps [of _ "Suc (Suc (Suc 0))"]
        wait_exponential_def numeral_2_eq_2 numeral_3_eq_3)

text \<open>A first attempt that returns is the only one.\<close>

lemma retry_first: "body 1 = Inr v \<Longrightarrow> retry body = (Inr v, 1, [])"
  unfolding retry_def by (subst retrying.simps) simp

section \<open>Traces and the publisher: lemmas\<close>

lemma deliveries_append [simp]: "deliveries (a @ b) = deliveries a @ deliveries b"
  by (simp add: deliveries_def map_filter_def)

lemma publications_append [simp]: "publications (a @ b) = publications a @ publications b"
  by (simp add: publications_def map_filter_def)

lemma enrichments_append [simp]: "enrichments (a @ b) = enrichments a @ enrichments b"
  by (simp add: enrichments_def map_filter_def)

lemma readings_Cons [simp]:
  "deliveries (e # tr) = (case sent_for e of None \<Rightarrow> deliveries tr | Some t \<Rightarrow> t # deliveries tr)"
  "publications (e # tr) =
     (case published_for e of None \<Rightarrow> publications tr | Some t \<Rightarrow> t # publications tr)"
  "enrichments (e # tr) =
     (case enriched_for e of None \<Rightarrow> enrichments tr | Some t \<Rightarrow> t # enrichments tr)"
  by (simp_all add: deliveries_def publications_def enrichments_def map_filter_def
        split: option.splits)

lemma readings_Nil [simp]: "deliveries [] = []" "publications [] = []" "enrichments [] = []"
  by (simp_all add: deliveries_def publications_def enrichments_def map_filter_def)

lemma readings_sleeps [simp]:
  "deliveries (map Sleep xs) = []" "publications (map Sleep xs) = []"
  "enrichments (map Sleep xs) = []"
  by (induction xs) simp_all

lemma readings_enrich [simp]:
  "deliveries (map (\<lambda>n. Enrich (f n)) ns) = []"
  "publications (map (\<lambda>n. Enrich (f n)) ns) = []"
  "enrichments (map (\<lambda>n. Enrich (f n)) ns) = map f ns"
  by (induction ns) simp_all

lemma save_load:
  "load_posted_titles L = Inr S \<Longrightarrow> load_posted_titles (save_posted_title t L) = Inr (insert t S)"
  by (simp add: save_posted_title_def)

text \<open>What one call of \<^verbatim>\<open>send_to_telegram\<close> leaves behind.\<close>

lemma send_ledger:
  "snd (send_to_telegram pr ph msg t img summ L) =
     (if \<exists>e\<in>set (fst (send_to_telegram pr ph msg t img summ L)). delivered t e
      then save_posted_title t L else L)"
  by (auto simp: send_to_telegram_def send_message_def Let_def
        split: option.splits http_result.splits)

lemma send_trace_ledger:
  "fst (send_to_telegram pr ph msg t img summ L) = fst (send_to_telegram pr ph msg t img summ L0)"
  by (auto simp: send_to_telegram_def send_message_def Let_def
        split: option.splits http_result.splits)

lemma send_readings:
  "publications (fst (send_to_telegram pr ph msg t img summ L)) = [t]"
  "enrichments (fst (send_to_telegram pr ph msg t img summ L)) = []"
  "deliveries (fst (send_to_telegram pr ph msg t img summ L)) = [t] \<or>
   deliveries (fst (send_to_telegram pr ph msg t img summ L)) = [t, t]"
  by (auto simp: send_to_telegram_def send_message_def Let_def
        split: option.splits http_result.splits)


lemma send_load:
  assumes "load_posted_titles L = Inr S"
  shows "\<exists>S1. load_posted_titles (snd (send_to_telegram pr ph msg t img summ L)) = Inr S1 \<and>
           S \<subseteq> S1 \<and> S1 \<subseteq> insert t S \<and>
           ((\<exists>e\<in>set (fst (send_to_telegram pr ph msg t img summ L)). delivered t e) \<longrightarrow> t \<in> S1)"
  using assms by (auto simp: send_ledger save_load)

lemma send_enrichments:
  "send_to_telegram pr ph msg t img summ L = (tr, L') \<Longrightarrow> enrichments tr = []"
  using send_readings(2) [of pr ph msg t img summ L] by simp

lemma send_text_only:
  "send_to_telegram pr ph msg t None summ L =
     ([Publish t, SendMessage t (caption_of t summ) msg] @
        (if msg = Success then [SaveTitle t] else []),
      if msg = Success then save_posted_title t L else L)"
  by (simp add: send_to_telegram_def send_message_def truthy_def Let_def
        split: http_result.splits)

section \<open>The publishing loop: lemmas\<close>

lemma publish_all_skip:
  "load_posted_titles L = Inr S \<Longrightarrow> title n \<in> S \<Longrightarrow>
   publish_all w i (n # ns) L = publish_all w (Suc i) ns L"
  by simp

lemma publish_all_step:
  "load_posted_titles L = Inr S \<Longrightarrow> title n \<notin> S \<Longrightarrow> enriched n = Some (img, summ) \<Longrightarrow>
   publish_all w i (n # ns) L =
     (case publish_all w (Suc i) ns
             (snd (send_to_telegram (probe w i) (photo w i) (message w i) (title n) img summ L)) of
        (r, tr', L') \<Rightarrow>
          (r, fst (send_to_telegram (probe w i) (photo w i) (message w i) (title n) img summ L)
                @ Sleep 2 # tr', L'))"
  by (simp split: prod.splits)

lemma publish_all_unenriched:
  "load_posted_titles L = Inr S \<Longrightarrow> title n \<notin> S \<Longrightarrow> enriched n = None \<Longrightarrow>
   publish_all w i (n # ns) L = (Some KeyError, [], L)"
  by simp



lemma publish_all_posted:
  "load_posted_titles L = Inr S \<Longrightarrow> t \<in> S \<Longrightarrow> publish_all w i ns L = (r, tr, L') \<Longrightarrow>
   t \<notin> set (publications tr) \<and> t \<notin> set (deliveries tr)"
proof (induction ns arbitrary: i L S r tr L')
  case Nil
  then show ?case by auto
next
  case (Cons n ns)
  show ?case
  proof (cases "title n \<in> S")
    case True
    with Cons.prems have "publish_all w (Suc i) ns L = (r, tr, L')"
      by simp
    from Cons.IH [OF Cons.prems(1,2) this] show ?thesis .
  next
    case False
    show ?thesis
    proof (cases "enriched n")
      case None
      with False Cons.prems show ?thesis by auto
    next
      case (Some p)
      obtain img summ where p: "p = (img, summ)" by (cases p)
      let ?sd = "send_to_telegram (probe w i) (photo w i) (message w i) (title n) img summ L"
      obtain S1 where S1: "load_posted_titles (snd ?sd) = Inr S1" "S \<subseteq> S1"
        using send_load [OF Cons.prems(1)] by blast
      obtain r2 tr2 L2 where rest: "publish_all w (Suc i) ns (snd ?sd) = (r2, tr2, L2)"
        by (cases "publish_all w (Suc i) ns (snd ?sd)")
      have eq: "tr = fst ?sd @ Sleep 2 # tr2"
        using Cons.prems False Some p rest
        by (simp add: publish_all_step [OF Cons.prems(1) False] del: publish_all.simps)
      from S1(2) Cons.prems(2) have "t \<in> S1" by blast
      from Cons.IH [OF S1(1) this rest]
      have "t \<notin> set (publications tr2)" "t \<notin> set (deliveries tr2)" by simp_all
      moreover from False Cons.prems(2) have "t \<noteq> title n" by blast
      ultimately show ?thesis
        using send_readings [of "probe w i" "photo w i" "message w i" "title n" img summ L]
        by (auto simp: eq)
    qed
  qed
qed

lemma remdups_adj_fresh:
  "remdups_adj xs = ys \<Longrightarrow> x \<notin> set ys \<Longrightarrow> remdups_adj (x # xs) = x # ys"
  by (cases ys) (auto simp: remdups_adj_Cons)

lemma publish_all_order:
  "load_posted_titles L = Inr S \<Longrightarrow> distinct (map title ns) \<Longrightarrow>
   \<forall>n\<in>set ns. title n \<notin> S \<and> enriched n \<noteq> None \<Longrightarrow>
   \<exists>tr L'. publish_all w i ns L = (None, tr, L') \<and> publications tr = map title ns \<and>
     remdups_adj (deliveries tr) = map title ns"
proof (induction ns arbitrary: i L S)
  case Nil
  then show ?case by simp
next
  case (Cons n ns)
  from Cons.prems(3) obtain img summ where en: "enriched n = Some (img, summ)"
    by (cases "enriched n") auto
  from Cons.prems(3) have new: "title n \<notin> S" by simp
  let ?sd = "send_to_telegram (probe w i) (photo w i) (message w i) (title n) img summ L"
  obtain S1 where S1: "load_posted_titles (snd ?sd) = Inr S1" "S1 \<subseteq> insert (title n) S"
    using send_load [OF Cons.prems(1)] by blast
  have "\<forall>m\<in>set ns. title m \<notin> S1 \<and> enriched m \<noteq> None"
  proof
    fix m assume m: "m \<in> set ns"
    then have "title m \<in> set (map title ns)" by (simp only: set_map) (rule imageI)
    moreover from Cons.prems(2) have "title n \<notin> set (map title ns)" by simp
    ultimately have "title m \<noteq> title n" by metis
    moreover from m Cons.prems(3) have "title m \<notin> S" "enriched m \<noteq> None" by simp_all
    ultimately show "title m \<notin> S1 \<and> enriched m \<noteq> None"
      using S1(2) by blast
  qed
  moreover have "distinct (map title ns)"
    using Cons.prems(2) by simp
  ultimately obtain tr2 L2 where rest: "publish_all w (Suc i) ns (snd ?sd) = (None, tr2, L2)"
    "publications tr2 = map title ns" "remdups_adj (deliveries tr2) = map title ns"
    using Cons.IH [OF S1(1)] by blast
  have eq: "publish_all w i (n # ns) L = (None, fst ?sd @ Sleep 2 # tr2, L2)"
    by (simp add: publish_all_step [OF Cons.prems(1) new en] rest del: publish_all.simps)
  have fresh: "title n \<notin> set (map title ns)"
    using Cons.prems(2) by simp
  have one: "remdups_adj (title n # deliveries tr2) = title n # map title ns"
    using rest(3) fresh by (rule remdups_adj_fresh)
  have "remdups_adj (deliveries (fst ?sd @ Sleep 2 # tr2)) = title n # map title ns"
    using send_readings(3) [of "probe w i" "photo w i" "message w i" "title n" img summ L] one
    by auto
  moreover have "publications (fst ?sd @ Sleep 2 # tr2) = title n # map title ns"
    by (simp add: send_readings rest(2))
  ultimately show ?case
    using eq by simp
qed

lemma publish_all_enrichments:
  "publish_all w i ns L = (r, tr, L') \<Longrightarrow> enrichments tr = []"
  by (induction ns arbitrary: i L r tr L')
     (auto split: sum.splits option.splits prod.splits if_splits dest: send_enrichments)

lemma publish_all_empty_ledger:
  assumes "L = La \<or> (L = Absent \<or> L = Undecodable) \<and> La = Stored {}"
  shows "fst (publish_all w i ns L) = fst (publish_all w i ns La) \<and>
         fst (snd (publish_all w i ns L)) = fst (snd (publish_all w i ns La))"
  using assms
proof (induction ns arbitrary: i L La)
  case Nil
  show ?case by simp
next
  case (Cons n ns)
  show ?case
  proof (cases "L = La")
    case True
    then show ?thesis by simp
  next
    case False
    with Cons.prems have L: "L = Absent \<or> L = Undecodable" and La: "La = Stored {}"
      by auto
    from L have l: "load_posted_titles L = Inr {}" by auto
    from La have la: "load_posted_titles La = Inr {}" by simp
    have new: "title n \<notin> {}" by simp
    show ?thesis
    proof (cases "enriched n")
      case None
      then show ?thesis
        by (simp add: publish_all_unenriched [OF l new] publish_all_unenriched [OF la new]
              del: publish_all.simps)
    next
      case (Some p)
      obtain img summ where en: "enriched n = Some (img, summ)"
        using Some by (cases p) auto
      let ?sd = "send_to_telegram (probe w i) (photo w i) (message w i) (title n) img summ"
      have tr: "fst (?sd L) = fst (?sd La)"
        by (rule send_trace_ledger)
      have "snd (?sd L) = snd (?sd La) \<or>
            (snd (?sd L) = Absent \<or> snd (?sd L) = Undecodable) \<and> snd (?sd La) = Stored {}"
        using L La by (auto simp: send_ledger tr save_posted_title_def)
      from Cons.IH [OF this]
      show ?thesis
        by (simp add: publish_all_step [OF l new en] publish_all_step [OF la new en] tr
              case_prod_beta del: publish_all.simps)
    qed
  qed
qed

section \<open>Enrichment and the run: lemmas\<close>

lemma enrich_one_title [simp]: "title (enrich_one w k n) = title n"
  by (simp add: enrich_one_def split: sum.splits)

lemma enrich_one_enriched [simp]: "\<exists>a b. enriched (enrich_one w k n) = Some (a, b)"
  by (simp add: enrich_one_def split: sum.splits)

lemma enrich_all_titles [simp]: "map title (enrich_all w S k ns) = map title ns"
  by (induction ns arbitrary: k) simp_all

lemma enrich_all_enriched:
  "m \<in> set (enrich_all w S k ns) \<Longrightarrow> title m \<notin> S \<Longrightarrow> enriched m \<noteq> None"
  by (induction ns arbitrary: k) (auto split: if_splits)


lemma enrich_one_raises:
  "task_raises w k n \<Longrightarrow>
   enrich_one w k n = n\<lparr>enriched := Some (None, ascii ''Failed to fetch summary.'')\<rparr>"
  by (auto simp: task_raises_def enrich_one_def split: sum.splits)

lemma run_once_news:
  "fetch_anime_news (today w) (feed w) = (Inr ns, a, sl) \<Longrightarrow> ns \<noteq> [] \<Longrightarrow>
   load_posted_titles L = Inr S \<Longrightarrow>
   run_once w L =
     (case publish_all w 0 (enrich_all w S 0 ns) L of
        (r, tr', L') \<Rightarrow>
          (r, map Sleep sl @ map (\<lambda>n. Enrich (title n)) (filter (\<lambda>n. title n \<notin> S) ns) @ tr',
           L'))"
  by (simp add: run_once_def fetch_selected_articles_def)

lemma run_once_no_news:
  "fetch_anime_news (today w) (feed w) = (Inr [], a, sl) \<Longrightarrow> run_once w L = (None, map Sleep sl, L)"
  by (simp add: run_once_def)

lemma run_once_feed_raises:
  "fetch_anime_news (today w) (feed w) = (Inl e, a, sl) \<Longrightarrow>
   run_once w L = (Some e, map Sleep sl, L)"
  by (simp add: run_once_def)

lemma run_once_load_raises:
  "fetch_anime_news (today w) (feed w) = (Inr ns, a, sl) \<Longrightarrow> ns \<noteq> [] \<Longrightarrow>
   load_posted_titles L = Inl e \<Longrightarrow> run_once w L = (Some e, map Sleep sl, L)"
  by (simp add: run_once_def fetch_selected_articles_def)

section \<open>The example inputs: lemmas\<close>

lemma example_feed:
  "fetch_anime_news (today example_world) (feed example_world) =
     (Inr [example_news ''A'', example_news ''B'', example_news ''C''], 1, [])"
  unfolding fetch_anime_news_def
  by (rule retry_first)
     (simp add: example_world_def fetch_anime_news_body_def example_card_def example_news_def
        article_url_of_def DEBUG_MODE_def get_text_strip_def strip_def isspace_def ascii_def)

lemma example_titles:
  "title (example_news t) = ascii t"
  by (simp add: example_news_def)

lemma example_enrich:
  "enrich_one example_world k (example_news t) =
     (example_news t)\<lparr>enriched := Some (Some (BASE_URL @ ascii ''/thumb/'' @ ascii t), ascii ''Summary'')\<rparr>"
  by (simp add: enrich_one_def example_world_def fetch_article_details_def
        retry_first fetch_article_details_body_def example_news_def truthy_def BASE_URL_def
        first_paragraph_of_def summarize_def text_of_def thumbnail_url_def example_card_def
        startswith_def ascii_def)

lemma example_send:
  "u \<noteq> [] \<Longrightarrow>
   send_to_telegram (probe example_world i) (photo example_world i) (message example_world i)
     t (Some u) summ L =
     ([Publish t, Probe u, SendPhoto t u (caption_of t summ) Success, SaveTitle t],
      save_posted_title t L)"
  by (simp add: send_to_telegram_def example_world_def truthy_def validate_image_url_def
        startswith_def ascii_def Let_def)

lemma example_run:
  "load_posted_titles L = Inr {} \<Longrightarrow> run_once example_world L =
     (None,
      [Enrich (ascii ''A''), Enrich (ascii ''B''), Enrich (ascii ''C''),
       Publish (ascii ''A''), Probe (BASE_URL @ ascii ''/thumb/'' @ ascii ''A''),
       SendPhoto (ascii ''A'') (BASE_URL @ ascii ''/thumb/'' @ ascii ''A'')
         (caption_of (ascii ''A'') (ascii ''Summary'')) Success,
       SaveTitle (ascii ''A''), Sleep 2,
       Publish (ascii ''B''), Probe (BASE_URL @ ascii ''/thumb/'' @ ascii ''B''),
       SendPhoto (ascii ''B'') (BASE_URL @ ascii ''/thumb/'' @ ascii ''B'')
         (caption_of (ascii ''B'') (ascii ''Summary'')) Success,
       SaveTitle (ascii ''B''), Sleep 2,
       Publish (ascii ''C''), Probe (BASE_URL @ ascii ''/thumb/'' @ ascii ''C''),
       SendPhoto (ascii ''C'') (BASE_URL @ ascii ''/thumb/'' @ ascii ''C'')
         (caption_of (ascii ''C'') (ascii ''Summary'')) Success,
       SaveTitle (ascii ''C''), Sleep 2],
      Stored {ascii ''C'', ascii ''B'', ascii ''A''})"
proof -
  assume l: "load_posted_titles L = Inr {}"
  have ne: "ascii ''A'' \<noteq> ascii ''B''" "ascii ''A'' \<noteq> ascii ''C''" "ascii ''B'' \<noteq> ascii ''C''"
    "ascii ''C'' \<noteq> ascii ''B''" "ascii ''C'' \<noteq> ascii ''A''" "ascii ''B'' \<noteq> ascii ''A''"
    by (simp_all add: ascii_def)
  have nz: "BASE_URL @ x \<noteq> []" for x
    by (simp add: BASE_URL_def ascii_def)
  show ?thesis
    by (simp add: run_once_news [OF example_feed _ l] example_enrich example_titles
          example_send [OF nz] save_posted_title_def ne l)
qed

lemma example_timeout:
  "task_raises (example_world\<lparr>times_out := \<lambda>k. k = 0\<rparr>) 0 n"
  by (simp add: task_raises_def)

lemma example_parse_error:
  "task_raises (example_world\<lparr>detail := \<lambda>k a. DetailOtherError\<rparr>) 0 (example_news ''A'')"
proof -
  have "fetch_article_details_body (article_url (example_news ''A''))
          (article (example_news ''A'')) DetailOtherError = Inl ParseError"
    by (simp add: fetch_article_details_body_def example_news_def truthy_def BASE_URL_def
          ascii_def)
  then show ?thesis
    by (simp add: task_raises_def fetch_article_details_def retry_exhausted)
qed

section \<open>The ledger is written after a delivery\<close>



section \<open>Posted titles are left alone\<close>

text \<open>
  C2. A title that is in the ledger when the run starts is never enriched, never passed
  to \<^verbatim>\<open>send_to_telegram\<close> and never sent to the transport during that run.
\<close>

theorem posted_titles_untouched:
  assumes "load_posted_titles L = Inr S" and "t \<in> S"
  shows "t \<notin> set (enrichments (fst (snd (run_once w L)))) \<and>
         t \<notin> set (publications (fst (snd (run_once w L)))) \<and>
         t \<notin> set (deliveries (fst (snd (run_once w L))))"
proof -
  obtain res a sl where f: "fetch_anime_news (today w) (feed w) = (res, a, sl)"
    by (cases "fetch_anime_news (today w) (feed w)")
  show ?thesis
  proof (cases res)
    case (Inl e)
    with f show ?thesis by (simp add: run_once_feed_raises)
  next
    case (Inr ns)
    show ?thesis
    proof (cases "ns = []")
      case True
      with f Inr show ?thesis by (simp add: run_once_no_news)
    next
      case False
      obtain r tr' L' where p: "publish_all w 0 (enrich_all w S 0 ns) L = (r, tr', L')"
        by (cases "publish_all w 0 (enrich_all w S 0 ns) L")
      from publish_all_posted [OF assms p]
      have "t \<notin> set (publications tr')" "t \<notin> set (deliveries tr')" by simp_all
      moreover have "fst (snd (run_once w L)) =
          map Sleep sl @ map (\<lambda>n. Enrich (title n)) (filter (\<lambda>n. title n \<notin> S) ns) @ tr'"
        using f Inr False assms(1) p by (simp add: run_once_news)
      moreover have "enrichments tr' = []"
        using p by (rule publish_all_enrichments)
      ultimately show ?thesis
        using assms(2) by auto
    qed
  qed
qed

text \<open>
  With \<^verbatim>\<open>B\<close> in the ledger, the run over the example page enriches \<^verbatim>\<open>A\<close> and \<^verbatim>\<open>C\<close> only.
\<close>

theorem posted_titles_untouched_witness:
  "ascii ''B'' \<notin> set (enrichments (fst (snd (run_once example_world (Stored {ascii ''B''}))))) \<and>
   ascii ''B'' \<notin> set (publications (fst (snd (run_once example_world (Stored {ascii ''B''}))))) \<and>
   ascii ''B'' \<notin> set (deliveries (fst (snd (run_once example_world (Stored {ascii ''B''}))))) \<and>
   enrichments (fst (snd (run_once example_world (Stored {ascii ''B''})))) =
     [ascii ''A'', ascii ''C'']"
proof -
  have l: "load_posted_titles (Stored {ascii ''B''}) = Inr {ascii ''B''}"
    by simp
  obtain r tr' L' where p:
    "publish_all example_world 0
       (enrich_all example_world {ascii ''B''} 0
          [example_news ''A'', example_news ''B'', example_news ''C''])
       (Stored {ascii ''B''}) = (r, tr', L')"
    using prod_cases3 by blast
  have "run_once example_world (Stored {ascii ''B''}) =
      (case publish_all example_world 0
              (enrich_all example_world {ascii ''B''} 0
                 [example_news ''A'', example_news ''B'', example_news ''C''])
              (Stored {ascii ''B''}) of
         (r, tr', L') \<Rightarrow>
           (r, map Sleep [] @ map (\<lambda>n. Enrich (title n))
                 (filter (\<lambda>n. title n \<notin> {ascii ''B''})
                    [example_news ''A'', example_news ''B'', example_news ''C'']) @ tr', L'))"
    by (rule run_once_news [OF example_feed _ l]) simp
  then have "enrichments (fst (snd (run_once example_world (Stored {ascii ''B''})))) =
      [ascii ''A'', ascii ''C'']"
    unfolding p using publish_all_enrichments [OF p]
    by (simp add: example_titles ascii_def)
  then show ?thesis
    using posted_titles_untouched [OF l, of "ascii ''B''" example_world] by simp
qed

section \<open>The summary of an article\<close>




section \<open>The length of the caption\<close>

text \<open>
  C4. The caption is meant to stay within 1024 characters after the summary is cut
  again. The cut leaves room for 50 characters beside the title, and the fixed parts of
  the caption with the ellipsis take 71: for the title \<^verbatim>\<open>A\<close> and a summary of 1000
  letters \<^verbatim>\<open>x\<close> the first caption has 1069 characters and the one that is sent 1045.
\<close>

theorem caption_too_long:
  "1024 < length (first_caption (ascii ''A'') (replicate 1000 120)) \<and>
   length (caption_of (ascii ''A'') (replicate 1000 120)) = 1045"
proof -
  have t: "escape_html (PyStr [65]) = [65]"
    by (simp add: escape_html_str escape_spec_plain)
  have s: "safe_summary_of (replicate 1000 120) = replicate 1000 120"
    by (simp add: safe_summary_of_def escape_html_str escape_spec_plain)
  have "slice_to (replicate 1000 (120::nat)) (1024 - int (length [65::nat]) - 50) =
          replicate 973 120"
    by (simp add: slice_to_def)
  then show ?thesis
    by (simp add: first_caption_def caption_of_def t s length_format_caption ascii_def Let_def)
qed

text \<open>
  What the cut does keep: the caption that is sent opens with the whole escaped title in
  bold and ends with the channel signature.
\<close>

theorem caption_keeps_title_and_signature:
  "(\<exists>rest. caption_of t summary = ascii ''<b>'' @ escape_spec t @ ascii ''</b> '' @ rest) \<and>
   (\<exists>body. caption_of t summary = body @ signature)"
  by (simp add: caption_of_def format_caption_def signature_def escape_html_str Let_def)

section \<open>The feed request and the retry\<close>

text \<open>
  C5. A feed request that raises a \<^verbatim>\<open>RequestException\<close> is caught inside the decorated
  function, which returns the empty list: the decorator sees a call that returned, so
  there is one attempt and no sleep, where the claim has up to three attempts with
  backoff before the empty list.
\<close>

theorem feed_error_not_retried:
  "fetch_anime_news d (\<lambda>n. FeedRequestError) = (Inr [], 1, [])"
  by (simp add: fetch_anime_news_def retry_def retrying.simps fetch_anime_news_body_def)

section \<open>An enrichment that raises\<close>

text \<open>
  C6, as the code has it. When the task of an item raises (its future times out, or the
  decorated \<^verbatim>\<open>fetch_article_details\<close> raises after its attempts), the item gets no image
  and the summary \<^verbatim>\<open>Failed to fetch summary.\<close>; the enrichment goes on with the items
  after it; and in the publishing loop, with the title not in the ledger, the item is
  passed to \<^verbatim>\<open>send_to_telegram\<close>, which makes the text request only (no probe, no photo
  request), after which the loop goes on with the items after it.
\<close>

theorem degraded_entry_sent_as_text:
  assumes "task_raises w k n" and "load_posted_titles L = Inr S" and "title n \<notin> S"
  shows "enrich_one w k n = n\<lparr>enriched := Some (None, ascii ''Failed to fetch summary.'')\<rparr> \<and>
         enrich_all w S k (n # ns) = enrich_one w k n # enrich_all w S (Suc k) ns \<and>
         publish_all w i (enrich_one w k n # ms) L =
           (case publish_all w (Suc i) ms
                   (if message w i = Success then save_posted_title (title n) L else L) of
              (r, tr', L') \<Rightarrow>
                (r, [Publish (title n),
                     SendMessage (title n)
                       (caption_of (title n) (ascii ''Failed to fetch summary.'')) (message w i)] @
                    (if message w i = Success then [SaveTitle (title n)] else []) @
                    Sleep 2 # tr', L'))"
proof (intro conjI)
  show e: "enrich_one w k n = n\<lparr>enriched := Some (None, ascii ''Failed to fetch summary.'')\<rparr>"
    using assms(1) by (rule enrich_one_raises)
  show "enrich_all w S k (n # ns) = enrich_one w k n # enrich_all w S (Suc k) ns"
    using assms(3) by simp
  have t: "title (enrich_one w k n) \<notin> S"
    using assms(3) by simp
  have en: "enriched (enrich_one w k n) = Some (None, ascii ''Failed to fetch summary.'')"
    by (simp add: e)
  show "publish_all w i (enrich_one w k n # ms) L =
           (case publish_all w (Suc i) ms
                   (if message w i = Success then save_posted_title (title n) L else L) of
              (r, tr', L') \<Rightarrow>
                (r, [Publish (title n),
                     SendMessage (title n)
                       (caption_of (title n) (ascii ''Failed to fetch summary.'')) (message w i)] @
                    (if message w i = Success then [SaveTitle (title n)] else []) @
                    Sleep 2 # tr', L'))"
    by (simp add: publish_all_step [OF assms(2) t en] send_text_only del: publish_all.simps
          split: prod.splits)
qed

text \<open>
  A future that times out, and an article page whose three attempts raise an exception
  that is not a \<^verbatim>\<open>RequestException\<close>: the item is degraded, and sent as text.
\<close>

theorem degraded_entry_sent_as_text_witness:
  "enriched (enrich_one (example_world\<lparr>times_out := \<lambda>k. k = 0\<rparr>) 0 (example_news ''A'')) =
     Some (None, ascii ''Failed to fetch summary.'') \<and>
   publish_all (example_world\<lparr>times_out := \<lambda>k. k = 0\<rparr>) 0
     [enrich_one (example_world\<lparr>times_out := \<lambda>k. k = 0\<rparr>) 0 (example_news ''A'')] Absent =
     (None,
      [Publish (ascii ''A''),
       SendMessage (ascii ''A'') (caption_of (ascii ''A'') (ascii ''Failed to fetch summary.''))
         Success,
       SaveTitle (ascii ''A''), Sleep 2],
      Stored {ascii ''A''}) \<and>
   enriched (enrich_one (example_world\<lparr>detail := \<lambda>k a. DetailOtherError\<rparr>) 0
     (example_news ''A'')) = Some (None, ascii ''Failed to fetch summary.'')"
proof -
  have l: "load_posted_titles Absent = Inr {}"
    by simp
  have t: "title (example_news ''A'') \<notin> {}"
    by simp
  have m: "message example_world 0 = Success"
    by (simp add: example_world_def)
  note timeout = degraded_entry_sent_as_text [OF example_timeout l t, of "[]" 0 "[]"]
  note parse = degraded_entry_sent_as_text [OF example_parse_error l t, of "[]" 0 "[]"]
  have "enriched (enrich_one (example_world\<lparr>times_out := \<lambda>k. k = 0\<rparr>) 0 (example_news ''A'')) =
      Some (None, ascii ''Failed to fetch summary.'')"
    using timeout by simp
  moreover have "publish_all (example_world\<lparr>times_out := \<lambda>k. k = 0\<rparr>) 0
     [enrich_one (example_world\<lparr>times_out := \<lambda>k. k = 0\<rparr>) 0 (example_news ''A'')] Absent =
     (None,
      [Publish (ascii ''A''),
       SendMessage (ascii ''A'') (caption_of (ascii ''A'') (ascii ''Failed to fetch summary.''))
         Success,
       SaveTitle (ascii ''A''), Sleep 2],
      Stored {ascii ''A''})"
    using timeout [THEN conjunct2, THEN conjunct2]
    by (simp add: m example_titles save_posted_title_def del: publish_all.simps(2))
  moreover have "enriched (enrich_one (example_world\<lparr>detail := \<lambda>k a. DetailOtherError\<rparr>) 0
     (example_news ''A'')) = Some (None, ascii ''Failed to fetch summary.'')"
    using parse by simp
  ultimately show ?thesis
    by (intro conjI)
qed

text \<open>
  C6, as stated, fails for a network error: a \<^verbatim>\<open>RequestException\<close> on the GET of the
  article page is caught inside \<^verbatim>\<open>fetch_article_details\<close>, which returns the thumbnail and
  the summary \<^verbatim>\<open>No summary available.\<close>; the item keeps its image and goes out as a photo.
\<close>

theorem network_error_keeps_image_counterexample:
  "enrich_one (example_world\<lparr>detail := \<lambda>k a. DetailRequestError\<rparr>) 0 (example_news ''A'') =
     (example_news ''A'')
       \<lparr>enriched := Some (Some (BASE_URL @ ascii ''/thumb/'' @ ascii ''A''),
                           ascii ''No summary available.'')\<rparr> \<and>
   publish_all (example_world\<lparr>detail := \<lambda>k a. DetailRequestError\<rparr>) 0
     [enrich_one (example_world\<lparr>detail := \<lambda>k a. DetailRequestError\<rparr>) 0 (example_news ''A'')]
     Absent =
     (None,
      [Publish (ascii ''A''), Probe (BASE_URL @ ascii ''/thumb/'' @ ascii ''A''),
       SendPhoto (ascii ''A'') (BASE_URL @ ascii ''/thumb/'' @ ascii ''A'')
         (caption_of (ascii ''A'') (ascii ''No summary available.'')) Success,
       SaveTitle (ascii ''A''), Sleep 2],
      Stored {ascii ''A''})"
proof -
  let ?w = "example_world\<lparr>detail := \<lambda>k a. DetailRequestError\<rparr>"
  have "fetch_article_details_body (article_url (example_news ''A''))
          (article (example_news ''A'')) DetailRequestError =
        Inr (Some (BASE_URL @ ascii ''/thumb/'' @ ascii ''A''), ascii ''No summary available.'')"
    by (simp add: fetch_article_details_body_def example_news_def truthy_def BASE_URL_def
          thumbnail_url_def example_card_def startswith_def ascii_def)
  then have e: "enrich_one ?w 0 (example_news ''A'') =
     (example_news ''A'')
       \<lparr>enriched := Some (Some (BASE_URL @ ascii ''/thumb/'' @ ascii ''A''),
                           ascii ''No summary available.'')\<rparr>"
    by (simp add: enrich_one_def fetch_article_details_def retry_first example_world_def)
  have nz: "BASE_URL @ x \<noteq> []" for x
    by (simp add: BASE_URL_def ascii_def)
  show ?thesis
    unfolding e by (simp add: example_titles example_send [OF nz] save_posted_title_def)
qed

section \<open>The order of delivery\<close>

text \<open>
  C7. When the titles of the feed are distinct and none is in the ledger, the run ends
  without an exception, \<^verbatim>\<open>send_to_telegram\<close> is called once per item in the order of
  the feed, and the transport requests follow that order (an item has one request, or a
  photo request and then a text request). This holds for every world, so for every
  outcome and timing of the enrichment tasks: their results are read in the order of
  submission and written into the items, and the publishing loop walks \<^verbatim>\<open>news_list\<close>.
\<close>

theorem delivery_in_feed_order:
  assumes "fst (fetch_anime_news (today w) (feed w)) = Inr ns"
    and "load_posted_titles L = Inr S"
    and "distinct (map title ns)"
    and "\<forall>n\<in>set ns. title n \<notin> S"
  shows "fst (run_once w L) = None \<and>
         publications (fst (snd (run_once w L))) = map title ns \<and>
         remdups_adj (deliveries (fst (snd (run_once w L)))) = map title ns"
proof (cases "ns = []")
  case True
  obtain res a sl where f: "fetch_anime_news (today w) (feed w) = (res, a, sl)"
    by (cases "fetch_anime_news (today w) (feed w)")
  with assms(1) True show ?thesis
    by (simp add: run_once_no_news)
next
  case False
  obtain res a sl where "fetch_anime_news (today w) (feed w) = (res, a, sl)"
    by (cases "fetch_anime_news (today w) (feed w)")
  with assms(1) have f: "fetch_anime_news (today w) (feed w) = (Inr ns, a, sl)"
    by simp
  let ?ns = "enrich_all w S 0 ns"
  have "distinct (map title ?ns)"
    using assms(3) by simp
  moreover have "\<forall>n\<in>set ?ns. title n \<notin> S \<and> enriched n \<noteq> None"
  proof
    fix n assume n: "n \<in> set ?ns"
    then have "title n \<in> set (map title ?ns)"
      by (simp only: set_map) (rule imageI)
    then have "title n \<in> set (map title ns)"
      by simp
    with assms(4) have "title n \<notin> S"
      by auto
    with n show "title n \<notin> S \<and> enriched n \<noteq> None"
      by (simp add: enrich_all_enriched)
  qed
  ultimately obtain tr' L' where p: "publish_all w 0 ?ns L = (None, tr', L')"
    "publications tr' = map title ns" "remdups_adj (deliveries tr') = map title ns"
    using publish_all_order [OF assms(2), of ?ns w 0] by auto
  show ?thesis
    by (simp add: run_once_news [OF f False assms(2)] p)
qed

text \<open>
  The example page with an absent ledger: three items, published in the order of the
  page.
\<close>

theorem delivery_in_feed_order_witness:
  "fst (run_once example_world Absent) = None \<and>
   publications (fst (snd (run_once example_world Absent))) =
     [ascii ''A'', ascii ''B'', ascii ''C''] \<and>
   remdups_adj (deliveries (fst (snd (run_once example_world Absent)))) =
     [ascii ''A'', ascii ''B'', ascii ''C'']"
proof -
  have f: "fst (fetch_anime_news (today example_world) (feed example_world)) =
      Inr [example_news ''A'', example_news ''B'', example_news ''C'']"
    by (simp add: example_feed)
  have l: "load_posted_titles Absent = Inr {}"
    by simp
  have d: "distinct (map title [example_news ''A'', example_news ''B'', example_news ''C''])"
    by (simp add: example_titles ascii_def)
  have n: "\<forall>n\<in>set [example_news ''A'', example_news ''B'', example_news ''C'']. title n \<notin> {}"
    by simp
  show ?thesis
    using delivery_in_feed_order [OF f l d n] by (simp add: example_titles)
qed

section \<open>A second run\<close>



section \<open>Loading the ledger\<close>

text \<open>
  C9, as the code has it. A ledger file that is absent, or that \<^verbatim>\<open>json.load\<close> rejects,
  loads as the empty set of titles, and the run is not held up by it: it ends the same
  way, with the same events, as the run from a ledger file that holds the empty list.
\<close>

theorem missing_or_undecodable_ledger_is_empty:
  "f = Absent \<or> f = Undecodable \<Longrightarrow>
   load_posted_titles f = Inr {} \<and>
   fst (run_once w f) = fst (run_once w (Stored {})) \<and>
   fst (snd (run_once w f)) = fst (snd (run_once w (Stored {})))"
proof -
  assume f: "f = Absent \<or> f = Undecodable"
  then have l: "load_posted_titles f = Inr {}" by auto
  have la: "load_posted_titles (Stored {}) = Inr {}" by simp
  obtain res a sl where fe: "fetch_anime_news (today w) (feed w) = (res, a, sl)"
    by (cases "fetch_anime_news (today w) (feed w)")
  have "fst (run_once w f) = fst (run_once w (Stored {})) \<and>
        fst (snd (run_once w f)) = fst (snd (run_once w (Stored {})))"
  proof (cases res)
    case (Inl e)
    with fe show ?thesis by (simp add: run_once_feed_raises)
  next
    case (Inr ns)
    show ?thesis
    proof (cases "ns = []")
      case True
      with fe Inr show ?thesis by (simp add: run_once_no_news)
    next
      case False
      from fe Inr have fe': "fetch_anime_news (today w) (feed w) = (Inr ns, a, sl)" by simp
      have "f = Stored {} \<or> (f = Absent \<or> f = Undecodable) \<and> Stored {} = Stored {}"
        using f by simp
      from publish_all_empty_ledger [OF this, of w 0 "enrich_all w {} 0 ns"]
      show ?thesis
        by (simp add: run_once_news [OF fe' False l] run_once_news [OF fe' False la]
              case_prod_beta)
    qed
  qed
  with l show ?thesis by simp
qed

text \<open>The example run from a ledger file that cannot be decoded publishes its three items.\<close>

theorem missing_or_undecodable_ledger_is_empty_witness:
  "load_posted_titles Undecodable = Inr {} \<and>
   fst (run_once example_world Undecodable) = None \<and>
   publications (fst (snd (run_once example_world Undecodable))) =
     [ascii ''A'', ascii ''B'', ascii ''C'']"
proof -
  have "load_posted_titles (Stored {}) = Inr {}" by simp
  note run = example_run [OF this]
  have "Undecodable = Absent \<or> Undecodable = Undecodable" by simp
  from missing_or_undecodable_ledger_is_empty [OF this, of example_world]
  show ?thesis
    by (simp add: run)
qed

text \<open>
  C9, as stated, fails for a file that cannot be read: \<^verbatim>\<open>load_posted_titles\<close> catches
  \<^verbatim>\<open>JSONDecodeError\<close> only, so the \<^verbatim>\<open>OSError\<close> of \<^verbatim>\<open>open\<close> leaves it, and ends the run
  when the feed has news. A file holding a JSON number, boolean or null raises
  \<^verbatim>\<open>TypeError\<close> the same way.
\<close>

theorem unreadable_ledger_raises_counterexample:
  "load_posted_titles Unreadable = Inl OSError \<and>
   run_once example_world Unreadable = (Some OSError, [], Unreadable) \<and>
   load_posted_titles Scalar = Inl TypeError"
proof -
  have "load_posted_titles Unreadable = Inl OSError" by simp
  from run_once_load_raises [OF example_feed _ this]
  show ?thesis by simp
qed

section \<open>Escaping\<close>


end
